theory Spec2Isabelle
  imports Main "HOL-Library.Word"
begin

section \<open>Values exchanged by the application\<close>

text \<open>
  The two routes of \<open>app.py\<close> that stage an image, trigger the resize and look for the
  result are \<open>upload_image\<close> (lines 117 to 157) and \<open>check_resized_image\<close> (lines 159 to
  177). Both talk to three collaborators that are not part of the repository: the S3
  client of boto3, the HTTP client \<open>requests\<close> and the system clock. The collaborators
  are modelled as a \<open>world\<close> that the routes read and update; the routes themselves are
  translated line by line.
\<close>

type_synonym bytes = "8 word list"

text \<open>The argument of \<open>jsonify\<close> and of \<open>requests.post(json=...)\<close>: a dictionary literal,
  kept in the order in which the source writes its keys.\<close>

datatype json = JStr string | JInt int | JBool bool | JObj "(string \<times> json) list"

text \<open>What a view function returns: a JSON body and the HTTP status (200 when the
  source gives none).\<close>

datatype response = Response json nat

text \<open>
  The exceptions the collaborators raise. \<open>ClientError code text\<close> is botocore's
  \<open>ClientError\<close> with the error code of the service's answer (\<open>404\<close> for a missing key,
  \<open>403\<close> for a refused one); \<open>OtherError cls text\<close> is any exception of another class
  (\<open>EndpointConnectionError\<close>, \<open>requests.exceptions.ConnectionError\<close>, ...). The second
  component is \<open>str(e)\<close>.
\<close>

datatype py_exn = ClientError string string | OtherError string string

fun str :: "py_exn \<Rightarrow> string" where
  "str (ClientError code text) = text"
| "str (OtherError cls text) = text"

text \<open>The environment variables read at lines 18 to 20.\<close>

record config =
  SOURCE_BUCKET :: string
  TARGET_BUCKET :: string
  API_GATEWAY_URL :: string

record datetime =
  year :: nat
  month :: nat
  day :: nat
  hour :: nat
  minute :: nat
  second :: nat
  microsecond :: nat

text \<open>The calls a route makes to the outside, in the order in which it makes them.\<close>

datatype event =
  S3Upload string string
| Print string
| Sleep nat
| HttpPost string json

text \<open>
  The world: the objects held by the store, addressed by bucket and key; the failures
  the store answers with for a put or a head on a given address (\<open>None\<close>: the call goes
  through); the answer of the trigger endpoint to a request, a status code or an exception
  of the transport; the clock; and the calls made so far.
\<close>

record world =
  objects :: "string \<times> string \<rightharpoonup> bytes"
  put_fault :: "string \<times> string \<Rightarrow> py_exn option"
  head_fault :: "string \<times> string \<Rightarrow> py_exn option"
  post_result :: "string \<Rightarrow> json \<Rightarrow> py_exn + int"
  now :: datetime
  trace :: "event list"

section \<open>The collaborators\<close>

definition emit :: "event \<Rightarrow> world \<Rightarrow> world" where
  "emit ev w = w\<lparr>trace := trace w @ [ev]\<rparr>"

text \<open>\<open>s3.upload_fileobj(file, bucket, key)\<close>: stores the payload, or raises and stores
  nothing. The route calls it with the key of line 126 only, which is never empty.\<close>

definition upload_fileobj :: "bytes \<Rightarrow> string \<Rightarrow> string \<Rightarrow> world \<Rightarrow> (py_exn + unit) \<times> world" where
  "upload_fileobj payload bucket key w =
     (let w1 = emit (S3Upload bucket key) w
      in case put_fault w (bucket, key) of
           Some e \<Rightarrow> (Inl e, w1)
         | None \<Rightarrow> (Inr (), w1\<lparr>objects := (objects w1)((bucket, key) \<mapsto> payload)\<rparr>))"

text \<open>
  \<open>s3.head_object(Bucket=bucket, Key=key)\<close>. The client checks its parameters before it
  sends anything: an empty key raises \<open>ParamValidationError\<close>, which is not a
  \<open>ClientError\<close>. Otherwise the call gives the \<open>ContentLength\<close> of the object, a
  \<open>ClientError\<close> with code \<open>404\<close> when the store holds nothing at the address, or the
  failure the store answers with. A head does not change the store.
\<close>

definition head_object :: "world \<Rightarrow> string \<Rightarrow> string \<Rightarrow> py_exn + nat" where
  "head_object w bucket key =
     (if key = []
      then Inl (OtherError ''ParamValidationError''
                  ''Invalid length for parameter Key, value: 0, valid min length: 1'')
      else
        (case head_fault w (bucket, key) of
           Some e \<Rightarrow> Inl e
         | None \<Rightarrow>
             (case objects w (bucket, key) of
                None \<Rightarrow> Inl (ClientError ''404'' ''Not Found'')
              | Some payload \<Rightarrow> Inr (length payload))))"

text \<open>\<open>requests.post(url, json=body)\<close>: the status code of the answer, or the exception
  raised when no answer arrives.\<close>

definition requests_post :: "string \<Rightarrow> json \<Rightarrow> world \<Rightarrow> (py_exn + int) \<times> world" where
  "requests_post url body w = (post_result w url body, emit (HttpPost url body) w)"

section \<open>Strings\<close>

text \<open>\<open>strftime("%Y%m%d%H%M%S")\<close>: four digits of the year and two digits of each other
  field, which is what Python prints for the years from 1000 on and for fields within
  their ranges; the microseconds are not printed.\<close>

definition digit_char :: "nat \<Rightarrow> char" where
  "digit_char n = ''0123456789'' ! (n mod 10)"

definition dec2 :: "nat \<Rightarrow> string" where
  "dec2 n = [digit_char (n div 10), digit_char n]"

definition dec4 :: "nat \<Rightarrow> string" where
  "dec4 n = dec2 (n div 100) @ dec2 (n mod 100)"

definition strftime :: "datetime \<Rightarrow> string" where
  "strftime d =
     dec4 (year d) @ dec2 (month d) @ dec2 (day d) @ dec2 (hour d) @ dec2 (minute d) @ dec2 (second d)"

text \<open>\<open>s.rsplit(sep, 1)\<close>: the string cut at its last separator, or the string alone
  when it has none.\<close>

definition rsplit1 :: "char \<Rightarrow> string \<Rightarrow> string list" where
  "rsplit1 sep s =
     (if sep \<in> set s
      then [rev (tl (dropWhile (\<lambda>c. c \<noteq> sep) (rev s))), rev (takeWhile (\<lambda>c. c \<noteq> sep) (rev s))]
      else [s])"

fun startswith :: "string \<Rightarrow> string \<Rightarrow> bool" where
  "startswith s [] = True"
| "startswith [] (p # ps) = False"
| "startswith (c # cs) (p # ps) = (c = p \<and> startswith cs ps)"

text \<open>\<open>s.replace(old, new)\<close>: every occurrence of \<open>old\<close>, from the left and without
  overlap, becomes \<open>new\<close>; an empty \<open>old\<close> matches before every character and at the
  end.\<close>

function replace :: "string \<Rightarrow> string \<Rightarrow> string \<Rightarrow> string" where
  "replace old new [] = (if old = [] then new else [])"
| "replace old new (c # cs) =
     (if old = [] then new @ c # replace old new cs
      else if startswith (c # cs) old then new @ replace old new (drop (length old) (c # cs))
      else c # replace old new cs)"
  by pat_completeness auto
termination
proof (relation "measure (\<lambda>(old, new, s). length s)")
  fix old new :: string and c :: char and cs :: string
  assume "old \<noteq> []"
  then have "0 < length old" by simp
  then show "((old, new, drop (length old) (c # cs)), (old, new, c # cs))
               \<in> measure (\<lambda>(old, new, s). length s)"
    by simp
qed simp_all

section \<open>Key naming\<close>

text \<open>Lines 124 to 126: the key under which an upload is staged.\<close>

definition extension_of :: "string \<Rightarrow> string" where
  "extension_of fname = last (rsplit1 CHR ''.'' fname)"

definition make_source_key :: "datetime \<Rightarrow> string \<Rightarrow> string" where
  "make_source_key t fname =
     (let timestamp = strftime t;
          extension = extension_of fname
      in timestamp @ ''.'' @ extension)"

text \<open>Line 150, \<open>resized_key = f"resized-{source_key}"\<close>, and line 163,
  \<open>source_key = resized_key.replace("resized-", "")\<close>.\<close>

definition derive_target_key :: "string \<Rightarrow> string" where
  "derive_target_key source_key = ''resized-'' @ source_key"

definition derive_source_key :: "string \<Rightarrow> string" where
  "derive_source_key resized_key = replace ''resized-'' '''' resized_key"

section \<open>The routes\<close>

record upload_request =
  filename :: string
  file_data :: bytes
  width :: int
  height :: int

text \<open>
  \<open>upload_image\<close>, from line 124 on, for a request whose form fields have been read
  (lines 120 to 122, which raise before any call is made when a field is missing or is
  not a number). \<open>Inl\<close> is an exception that leaves the view function.
\<close>

definition trigger_body :: "config \<Rightarrow> string \<Rightarrow> upload_request \<Rightarrow> json" where
  "trigger_body cfg source_key req =
     JObj [(''source_key'', JStr source_key),
           (''width'', JInt (width req)),
           (''height'', JInt (height req)),
           (''source_bucket'', JStr (SOURCE_BUCKET cfg)),
           (''target_bucket'', JStr (TARGET_BUCKET cfg))]"

definition upload_image :: "config \<Rightarrow> upload_request \<Rightarrow> world \<Rightarrow> (py_exn + response) \<times> world" where
  "upload_image cfg req w =
     (let source_key = make_source_key (now w) (filename req)
      in case upload_fileobj (file_data req) (SOURCE_BUCKET cfg) source_key w of
           (Inl e, w1) \<Rightarrow>
             (Inr (Response (JObj [(''message'', JStr ''File upload failed.''),
                                   (''error'', JStr (str e))]) 500), w1)
         | (Inr u, w1) \<Rightarrow>
             (let w2 = emit (Print ''Image uploaded successfully.'') w1;
                  w3 = emit (Sleep 5) w2
              in case requests_post (API_GATEWAY_URL cfg) (trigger_body cfg source_key req) w3 of
                   (Inl e, w4) \<Rightarrow> (Inl e, w4)
                 | (Inr status_code, w4) \<Rightarrow>
                     if status_code \<noteq> 200
                     then (Inr (Response (JObj [(''message'', JStr ''Image resizing failed.'')]) 500), w4)
                     else
                       (let original_url = ''https://'' @ SOURCE_BUCKET cfg @ ''.s3.amazonaws.com/'' @ source_key;
                            resized_key = derive_target_key source_key;
                            resized_url = ''https://'' @ TARGET_BUCKET cfg @ ''.s3.amazonaws.com/'' @ resized_key
                        in (Inr (Response (JObj [(''original_url'', JStr original_url),
                                                 (''resized_url'', JStr resized_url),
                                                 (''resized_key'', JStr resized_key)]) 200), w4))))"

text \<open>The world in which the trigger call is made: the payload is stored, and the
  upload, the message and the pause are on record.\<close>

definition staged :: "config \<Rightarrow> upload_request \<Rightarrow> world \<Rightarrow> world" where
  "staged cfg req w =
     w\<lparr>objects := (objects w)((SOURCE_BUCKET cfg, make_source_key (now w) (filename req)) \<mapsto> file_data req),
       trace := trace w @ [S3Upload (SOURCE_BUCKET cfg) (make_source_key (now w) (filename req)),
                           Print ''Image uploaded successfully.'',
                           Sleep 5,
                           HttpPost (API_GATEWAY_URL cfg)
                             (trigger_body cfg (make_source_key (now w) (filename req)) req)]\<rparr>"

text \<open>
  \<open>check_resized_image\<close>, from line 163 on. The three heads of the \<open>try\<close> block run in
  turn; the \<open>except\<close> clause catches a \<open>ClientError\<close> of any of them and lets every other
  exception through.
\<close>

definition not_exists :: response where
  "not_exists = Response (JObj [(''exists'', JBool False)]) 200"

fun on_exception :: "py_exn \<Rightarrow> py_exn + response" where
  "on_exception (ClientError code text) = Inr not_exists"
| "on_exception (OtherError cls text) = Inl (OtherError cls text)"

definition check_resized_image :: "config \<Rightarrow> string \<Rightarrow> world \<Rightarrow> py_exn + response" where
  "check_resized_image cfg resized_key w =
     (let source_key = derive_source_key resized_key
      in case head_object w (TARGET_BUCKET cfg) resized_key of
           Inl e \<Rightarrow> on_exception e
         | Inr found \<Rightarrow>
             (case head_object w (SOURCE_BUCKET cfg) source_key of
                Inl e \<Rightarrow> on_exception e
              | Inr original_size \<Rightarrow>
                  (case head_object w (TARGET_BUCKET cfg) resized_key of
                     Inl e \<Rightarrow> on_exception e
                   | Inr resized_size \<Rightarrow>
                       Inr (Response (JObj [(''exists'', JBool True),
                                            (''original_size'', JInt (int original_size)),
                                            (''resized_size'', JInt (int resized_size))]) 200))))"

section \<open>Scenarios\<close>

text \<open>The inputs at which the theorems below are evaluated.\<close>

definition demo_config :: config where
  "demo_config =
     \<lparr>SOURCE_BUCKET = ''uploads'', TARGET_BUCKET = ''resized'',
      API_GATEWAY_URL = ''https://api.example.com/resize''\<rparr>"

definition noon :: datetime where
  "noon = \<lparr>year = 2024, month = 1, day = 1, hour = 12, minute = 0, second = 0, microsecond = 0\<rparr>"

definition later_in_the_second :: datetime where
  "later_in_the_second = noon\<lparr>microsecond := 500000\<rparr>"

text \<open>A store that holds nothing and refuses nothing, and an endpoint that accepts.\<close>

definition fresh_world :: world where
  "fresh_world =
     \<lparr>objects = Map.empty, put_fault = (\<lambda>a. None), head_fault = (\<lambda>a. None),
      post_result = (\<lambda>url body. Inr 200), now = noon, trace = []\<rparr>"

definition cat_request :: upload_request where
  "cat_request = \<lparr>filename = ''cat.png'', file_data = replicate 1024 0, width = 100, height = 100\<rparr>"

definition dog_request :: upload_request where
  "dog_request = \<lparr>filename = ''dog.png'', file_data = replicate 2048 1, width = 640, height = 480\<rparr>"

definition zero_width_request :: upload_request where
  "zero_width_request = cat_request\<lparr>width := 0\<rparr>"

text \<open>The store refuses the head on the resized key: botocore raises a \<open>ClientError\<close>
  with code 403.\<close>

definition denied_world :: world where
  "denied_world =
     fresh_world\<lparr>head_fault :=
       (\<lambda>a. if a = (''resized'', ''resized-20240101120000.png'')
            then Some (ClientError ''403'' ''Forbidden'') else None)\<rparr>"

text \<open>The endpoint cannot be reached: \<open>requests.post\<close> raises.\<close>

definition unreachable_world :: world where
  "unreachable_world =
     fresh_world\<lparr>post_result :=
       (\<lambda>url body. Inl (OtherError ''ConnectionError'' ''Connection refused''))\<rparr>"

text \<open>The endpoint answers with status 500.\<close>

definition rejecting_world :: world where
  "rejecting_world = fresh_world\<lparr>post_result := (\<lambda>url body. Inr 500)\<rparr>"

text \<open>A finished job: 1024 bytes staged, 256 bytes produced.\<close>

definition finished_world :: world where
  "finished_world =
     fresh_world\<lparr>objects :=
       [(''uploads'', ''20240101120000.png'') \<mapsto> replicate 1024 0,
        (''resized'', ''resized-20240101120000.png'') \<mapsto> replicate 256 0]\<rparr>"

text \<open>The same job for an upload whose file was named \<open>photo.resized-png\<close>.\<close>

definition finished_odd_world :: world where
  "finished_odd_world =
     fresh_world\<lparr>objects :=
       [(''uploads'', ''20240101120000.resized-png'') \<mapsto> replicate 1024 0,
        (''resized'', ''resized-20240101120000.resized-png'') \<mapsto> replicate 256 0]\<rparr>"

text \<open>The resized object is there, the staged one is not.\<close>

definition target_only_world :: world where
  "target_only_world =
     fresh_world\<lparr>objects :=
       [(''resized'', ''resized-20240101120000.png'') \<mapsto> replicate 256 0]\<rparr>"

section \<open>Facts about the strings\<close>

lemma digit_char_is_digit: "digit_char n \<in> set ''0123456789''"
proof -
  have "n mod 10 < length ''0123456789''" by simp
  then show ?thesis unfolding digit_char_def by (rule nth_mem)
qed

lemma digit_char_not_dot: "digit_char n \<noteq> CHR ''.''"
  using digit_char_is_digit [of n] by auto

lemma strftime_no_dot: "CHR ''.'' \<notin> set (strftime t)"
  by (simp add: strftime_def dec4_def dec2_def digit_char_not_dot [symmetric])

lemma strftime_ignores_microsecond: "strftime (t\<lparr>microsecond := m\<rparr>) = strftime t"
  by (simp add: strftime_def)

lemma takeWhile_up_to: "c \<notin> set a \<Longrightarrow> takeWhile (\<lambda>x. x \<noteq> c) (a @ c # x) = a"
  by (induction a) auto

lemma cut_at_first_dot:
  assumes "CHR ''.'' \<notin> set a" and "CHR ''.'' \<notin> set b"
  shows "a @ ''.'' @ x = b @ ''.'' @ y \<longleftrightarrow> a = b \<and> x = y"
proof
  assume eq: "a @ ''.'' @ x = b @ ''.'' @ y"
  have "takeWhile (\<lambda>c. c \<noteq> CHR ''.'') (a @ ''.'' @ x) = a"
    using assms(1) by (simp add: takeWhile_up_to)
  moreover have "takeWhile (\<lambda>c. c \<noteq> CHR ''.'') (b @ ''.'' @ y) = b"
    using assms(2) by (simp add: takeWhile_up_to)
  ultimately have "a = b" using eq by simp
  with eq show "a = b \<and> x = y" by simp
next
  assume "a = b \<and> x = y"
  then show "a @ ''.'' @ x = b @ ''.'' @ y" by simp
qed

lemma strftime_noon: "strftime noon = ''20240101120000''"
  by (simp add: strftime_def noon_def dec4_def dec2_def digit_char_def)

lemma startswith_iff: "startswith s p \<longleftrightarrow> (\<exists>zs. s = p @ zs)"
  by (induction s p rule: startswith.induct) auto

lemma replace_absent:
  assumes "old \<noteq> []" and "\<And>ys zs. s \<noteq> ys @ old @ zs"
  shows "replace old new s = s"
  using assms(2)
proof (induction s)
  case Nil
  with assms(1) show ?case by simp
next
  case (Cons c cs)
  have no_start: "\<not> startswith (c # cs) old"
    using Cons.prems [of "[]"] by (auto simp: startswith_iff)
  have "cs \<noteq> ys @ old @ zs" for ys zs
    using Cons.prems [of "c # ys" zs] by auto
  then have "replace old new cs = cs" by (rule Cons.IH)
  with assms(1) no_start show ?case by simp
qed

lemma derive_source_of_target:
  "derive_source_key (derive_target_key k) = replace ''resized-'' [] k"
  by (simp add: derive_source_key_def derive_target_key_def)

text \<open>The naming scheme does round-trip on the keys in which \<open>resized-\<close> does not occur.\<close>

lemma round_trip_without_occurrence:
  assumes "\<And>ys zs. k \<noteq> ys @ ''resized-'' @ zs"
  shows "derive_source_key (derive_target_key k) = k"
  unfolding derive_source_of_target by (rule replace_absent) (use assms in simp_all)

section \<open>Facts about the routes\<close>

lemma upload_image_put_failed:
  assumes "put_fault w (SOURCE_BUCKET cfg, make_source_key (now w) (filename req)) = Some e"
  shows "upload_image cfg req w =
           (Inr (Response (JObj [(''message'', JStr ''File upload failed.''),
                                 (''error'', JStr (str e))]) 500),
            emit (S3Upload (SOURCE_BUCKET cfg) (make_source_key (now w) (filename req))) w)"
  using assms by (simp add: upload_image_def upload_fileobj_def Let_def)

lemma upload_image_put_done:
  assumes "put_fault w (SOURCE_BUCKET cfg, make_source_key (now w) (filename req)) = None"
  shows "snd (upload_image cfg req w) = staged cfg req w"
  using assms
  by (simp add: upload_image_def upload_fileobj_def requests_post_def emit_def staged_def Let_def
           split: sum.splits)

lemma upload_image_after_put:
  assumes "put_fault w (SOURCE_BUCKET cfg, make_source_key (now w) (filename req)) = None"
  shows "fst (upload_image cfg req w) =
           (case post_result w (API_GATEWAY_URL cfg)
                   (trigger_body cfg (make_source_key (now w) (filename req)) req) of
              Inl e \<Rightarrow> Inl e
            | Inr status_code \<Rightarrow>
                if status_code \<noteq> 200
                then Inr (Response (JObj [(''message'', JStr ''Image resizing failed.'')]) 500)
                else Inr (Response
                  (JObj [(''original_url'', JStr (''https://'' @ SOURCE_BUCKET cfg @ ''.s3.amazonaws.com/''
                            @ make_source_key (now w) (filename req))),
                         (''resized_url'', JStr (''https://'' @ TARGET_BUCKET cfg @ ''.s3.amazonaws.com/''
                            @ derive_target_key (make_source_key (now w) (filename req)))),
                         (''resized_key'', JStr (derive_target_key (make_source_key (now w) (filename req))))])
                  200))"
  using assms
  by (simp add: upload_image_def upload_fileobj_def requests_post_def emit_def Let_def
           split: sum.splits)

lemma source_key_cat: "make_source_key noon ''cat.png'' = ''20240101120000.png''"
  by (simp add: make_source_key_def extension_of_def rsplit1_def strftime_noon)

lemma source_key_dog: "make_source_key later_in_the_second ''dog.png'' = ''20240101120000.png''"
  by (simp add: make_source_key_def extension_of_def rsplit1_def strftime_noon
        later_in_the_second_def strftime_ignores_microsecond)

lemma source_key_odd: "make_source_key noon ''photo.resized-png'' = ''20240101120000.resized-png''"
  by (simp add: make_source_key_def extension_of_def rsplit1_def strftime_noon)


lemma head_object_empty_key:
  "head_object w bucket [] =
     Inl (OtherError ''ParamValidationError''
            ''Invalid length for parameter Key, value: 0, valid min length: 1'')"
  by (simp add: head_object_def)

text \<open>A check with an empty key raises: the head is refused before it is sent.\<close>

lemma check_empty_key:
  "check_resized_image cfg [] w =
     Inl (OtherError ''ParamValidationError''
            ''Invalid length for parameter Key, value: 0, valid min length: 1'')"
  by (simp add: check_resized_image_def head_object_empty_key)

lemma check_after_heads:
  assumes "head_object w (TARGET_BUCKET cfg) resized_key = Inr resized_size"
    and "head_object w (SOURCE_BUCKET cfg) (derive_source_key resized_key) = Inr original_size"
  shows "check_resized_image cfg resized_key w =
           Inr (Response (JObj [(''exists'', JBool True),
                                (''original_size'', JInt (int original_size)),
                                (''resized_size'', JInt (int resized_size))]) 200)"
  using assms by (simp add: check_resized_image_def)

text \<open>The check finds a finished job whose source key comes back from its target key.\<close>

lemma check_finished:
  assumes "k \<noteq> []"
    and "derive_source_key (derive_target_key k) = k"
    and "head_fault w (TARGET_BUCKET cfg, derive_target_key k) = None"
    and "head_fault w (SOURCE_BUCKET cfg, k) = None"
    and "objects w (TARGET_BUCKET cfg, derive_target_key k) = Some resized"
    and "objects w (SOURCE_BUCKET cfg, k) = Some original"
  shows "check_resized_image cfg (derive_target_key k) w =
           Inr (Response (JObj [(''exists'', JBool True),
                                (''original_size'', JInt (int (length original))),
                                (''resized_size'', JInt (int (length resized)))]) 200)"
proof (rule check_after_heads)
  have "derive_target_key k \<noteq> []" by (simp add: derive_target_key_def)
  with assms(3,5) show "head_object w (TARGET_BUCKET cfg) (derive_target_key k) = Inr (length resized)"
    by (simp add: head_object_def)
  from assms(1,4,6)
  show "head_object w (SOURCE_BUCKET cfg) (derive_source_key (derive_target_key k)) = Inr (length original)"
    unfolding assms(2) by (simp add: head_object_def)
qed

text \<open>The scenario of a 1024-byte upload and its 256-byte result.\<close>

lemma check_finished_world:
  "check_resized_image demo_config ''resized-20240101120000.png'' finished_world =
     Inr (Response (JObj [(''exists'', JBool True),
                          (''original_size'', JInt 1024),
                          (''resized_size'', JInt 256)]) 200)"
  by (simp add: check_resized_image_def head_object_def derive_source_key_def
        finished_world_def fresh_world_def demo_config_def)

text \<open>An exception of another class than \<open>ClientError\<close> leaves the routes.\<close>

lemma check_other_error_on_target:
  assumes "head_object w (TARGET_BUCKET cfg) resized_key = Inl (OtherError cls text)"
  shows "check_resized_image cfg resized_key w = Inl (OtherError cls text)"
  using assms by (simp add: check_resized_image_def)

lemma upload_image_post_raises:
  assumes "put_fault w (SOURCE_BUCKET cfg, make_source_key (now w) (filename req)) = None"
    and "post_result w (API_GATEWAY_URL cfg)
           (trigger_body cfg (make_source_key (now w) (filename req)) req) = Inl e"
  shows "fst (upload_image cfg req w) = Inl e"
  using assms by (simp add: upload_image_after_put)

section \<open>Returning after the trigger call\<close>

text \<open>
  Claim C1, as written: after the trigger call is accepted the handle is returned at
  once, and \<open>upload_image\<close> makes no pause of a fixed length before it returns. The
  second half fails: line 132 sleeps five seconds after every upload that went through.
\<close>

theorem upload_image_sleeps:
  "Sleep 5 \<in> set (trace (snd (upload_image demo_config cat_request fresh_world)))"
  by (simp add: upload_image_put_done staged_def fresh_world_def)

text \<open>
  Claim C1, amended: when the upload goes through and the endpoint answers 200,
  \<open>upload_image\<close> makes exactly four calls, in this order: the upload, the message, a pause
  of five seconds and the trigger call. Nothing follows the trigger call, and the answer
  carries both addresses and the key of the resized object.
\<close>

theorem upload_image_accepted:
  assumes "put_fault w (SOURCE_BUCKET cfg, make_source_key (now w) (filename req)) = None"
    and "post_result w (API_GATEWAY_URL cfg)
           (trigger_body cfg (make_source_key (now w) (filename req)) req) = Inr 200"
  shows "fst (upload_image cfg req w) =
           Inr (Response
             (JObj [(''original_url'', JStr (''https://'' @ SOURCE_BUCKET cfg @ ''.s3.amazonaws.com/''
                       @ make_source_key (now w) (filename req))),
                    (''resized_url'', JStr (''https://'' @ TARGET_BUCKET cfg @ ''.s3.amazonaws.com/''
                       @ derive_target_key (make_source_key (now w) (filename req)))),
                    (''resized_key'', JStr (derive_target_key (make_source_key (now w) (filename req))))])
             200)
         \<and> trace (snd (upload_image cfg req w)) =
             trace w @ [S3Upload (SOURCE_BUCKET cfg) (make_source_key (now w) (filename req)),
                        Print ''Image uploaded successfully.'',
                        Sleep 5,
                        HttpPost (API_GATEWAY_URL cfg)
                          (trigger_body cfg (make_source_key (now w) (filename req)) req)]"
proof
  show "fst (upload_image cfg req w) =
           Inr (Response
             (JObj [(''original_url'', JStr (''https://'' @ SOURCE_BUCKET cfg @ ''.s3.amazonaws.com/''
                       @ make_source_key (now w) (filename req))),
                    (''resized_url'', JStr (''https://'' @ TARGET_BUCKET cfg @ ''.s3.amazonaws.com/''
                       @ derive_target_key (make_source_key (now w) (filename req)))),
                    (''resized_key'', JStr (derive_target_key (make_source_key (now w) (filename req))))])
             200)"
    using assms
    by (simp add: upload_image_def upload_fileobj_def requests_post_def emit_def Let_def)
  show "trace (snd (upload_image cfg req w)) =
             trace w @ [S3Upload (SOURCE_BUCKET cfg) (make_source_key (now w) (filename req)),
                        Print ''Image uploaded successfully.'',
                        Sleep 5,
                        HttpPost (API_GATEWAY_URL cfg)
                          (trigger_body cfg (make_source_key (now w) (filename req)) req)]"
    using assms(1) by (simp add: upload_image_put_done staged_def)
qed

theorem upload_image_accepted_at_noon:
  "fst (upload_image demo_config cat_request fresh_world) =
     Inr (Response
       (JObj [(''original_url'', JStr ''https://uploads.s3.amazonaws.com/20240101120000.png''),
              (''resized_url'', JStr ''https://resized.s3.amazonaws.com/resized-20240101120000.png''),
              (''resized_key'', JStr ''resized-20240101120000.png'')])
       200)
   \<and> trace (snd (upload_image demo_config cat_request fresh_world)) =
       [S3Upload ''uploads'' ''20240101120000.png'',
        Print ''Image uploaded successfully.'',
        Sleep 5,
        HttpPost ''https://api.example.com/resize''
          (JObj [(''source_key'', JStr ''20240101120000.png''),
                 (''width'', JInt 100),
                 (''height'', JInt 100),
                 (''source_bucket'', JStr ''uploads''),
                 (''target_bucket'', JStr ''resized'')])]"
proof -
  have key: "make_source_key noon ''cat.png'' = ''20240101120000.png''"
    by (simp add: make_source_key_def extension_of_def rsplit1_def strftime_noon)
  have put: "put_fault fresh_world
      (SOURCE_BUCKET demo_config, make_source_key (now fresh_world) (filename cat_request)) = None"
    by (simp add: fresh_world_def)
  have post: "post_result fresh_world (API_GATEWAY_URL demo_config)
      (trigger_body demo_config (make_source_key (now fresh_world) (filename cat_request)) cat_request)
        = Inr 200"
    by (simp add: fresh_world_def)
  from upload_image_accepted [OF put post] show ?thesis
    by (simp add: key derive_target_key_def trigger_body_def demo_config_def cat_request_def
          fresh_world_def)
qed

section \<open>Source keys\<close>

text \<open>
  Claim C2, as written: two distinct uploads, also at the same nominal timestamp and with
  the same extension, get distinct source keys. Two different files, uploaded half a
  second apart under different names, get the same key.
\<close>

theorem source_keys_collide:
  "cat_request \<noteq> dog_request
   \<and> noon \<noteq> later_in_the_second
   \<and> make_source_key noon (filename cat_request)
       = make_source_key later_in_the_second (filename dog_request)"
proof -
  have "filename cat_request \<noteq> filename dog_request"
    by (simp add: cat_request_def dog_request_def)
  then have "cat_request \<noteq> dog_request" by auto
  moreover have "microsecond noon \<noteq> microsecond later_in_the_second"
    by (simp add: noon_def later_in_the_second_def)
  then have "noon \<noteq> later_in_the_second" by auto
  moreover have "make_source_key noon (filename cat_request)
       = make_source_key later_in_the_second (filename dog_request)"
    by (simp add: cat_request_def dog_request_def source_key_cat source_key_dog)
  ultimately show ?thesis by blast
qed

text \<open>
  Claim C2, amended: the source keys of two uploads are equal exactly when their
  timestamps, printed to the second, are equal and their file extensions are equal; so
  they are distinct exactly when the uploads fall in different seconds or carry
  different extensions.
\<close>

theorem source_key_eq_iff:
  "make_source_key t1 f1 = make_source_key t2 f2
     \<longleftrightarrow> strftime t1 = strftime t2 \<and> extension_of f1 = extension_of f2"
  unfolding make_source_key_def Let_def
  by (rule cut_at_first_dot) (rule strftime_no_dot)+

theorem source_key_eq_iff_extensions:
  "make_source_key noon ''cat.png'' \<noteq> make_source_key noon ''cat.jpg''"
proof -
  have "extension_of ''cat.png'' \<noteq> extension_of ''cat.jpg''"
    by (simp add: extension_of_def rsplit1_def)
  with source_key_eq_iff [of noon "''cat.png''" noon "''cat.jpg''"] show ?thesis by simp
qed

section \<open>The round trip of the naming scheme\<close>

text \<open>
  Claim C3: the source key is recovered from the target key,
  \<open>derive_source_key (derive_target_key k) = k\<close>, for every source key \<open>k\<close>. The upload of
  a file named \<open>photo.resized-png\<close> at noon is staged under a key that does not come back:
  line 163 removes every occurrence of \<open>resized-\<close>, not only the prefix that line 150 put
  in front.
\<close>

theorem round_trip_fails:
  "make_source_key noon ''photo.resized-png'' = ''20240101120000.resized-png''
   \<and> derive_target_key ''20240101120000.resized-png'' = ''resized-20240101120000.resized-png''
   \<and> derive_source_key ''resized-20240101120000.resized-png'' = ''20240101120000.png''"
  by (simp add: source_key_odd derive_target_key_def derive_source_key_def)

section \<open>Width and height\<close>

text \<open>
  Claim C4, as written: an upload with width 0 is rejected, and neither the put nor the
  trigger call is made. The route has no check of its dimensions: with width 0 it makes
  both calls and answers 200.
\<close>

theorem zero_width_goes_through:
  "fst (upload_image demo_config zero_width_request fresh_world) =
     Inr (Response
       (JObj [(''original_url'', JStr ''https://uploads.s3.amazonaws.com/20240101120000.png''),
              (''resized_url'', JStr ''https://resized.s3.amazonaws.com/resized-20240101120000.png''),
              (''resized_key'', JStr ''resized-20240101120000.png'')])
       200)
   \<and> trace (snd (upload_image demo_config zero_width_request fresh_world)) =
       [S3Upload ''uploads'' ''20240101120000.png'',
        Print ''Image uploaded successfully.'',
        Sleep 5,
        HttpPost ''https://api.example.com/resize''
          (JObj [(''source_key'', JStr ''20240101120000.png''),
                 (''width'', JInt 0),
                 (''height'', JInt 100),
                 (''source_bucket'', JStr ''uploads''),
                 (''target_bucket'', JStr ''resized'')])]"
  by (simp add: upload_image_after_put upload_image_put_done staged_def trigger_body_def
        derive_target_key_def source_key_cat
        demo_config_def zero_width_request_def cat_request_def fresh_world_def)

text \<open>
  Claim C4, amended: \<open>upload_image\<close> does not look at the sign of width and height. For
  every request, width 0 and negative dimensions included, the put is attempted; when the
  put goes through, the trigger call follows with the width and the height of the
  request as they are; when the put fails, no trigger call is made.
\<close>

theorem upload_image_calls:
  "trace (snd (upload_image cfg req w)) =
     trace w @
       (if put_fault w (SOURCE_BUCKET cfg, make_source_key (now w) (filename req)) = None
        then [S3Upload (SOURCE_BUCKET cfg) (make_source_key (now w) (filename req)),
              Print ''Image uploaded successfully.'',
              Sleep 5,
              HttpPost (API_GATEWAY_URL cfg)
                (JObj [(''source_key'', JStr (make_source_key (now w) (filename req))),
                       (''width'', JInt (width req)),
                       (''height'', JInt (height req)),
                       (''source_bucket'', JStr (SOURCE_BUCKET cfg)),
                       (''target_bucket'', JStr (TARGET_BUCKET cfg))])]
        else [S3Upload (SOURCE_BUCKET cfg) (make_source_key (now w) (filename req))])"
proof (cases "put_fault w (SOURCE_BUCKET cfg, make_source_key (now w) (filename req))")
  case None
  then show ?thesis by (simp add: upload_image_put_done staged_def trigger_body_def)
next
  case (Some e)
  then show ?thesis by (simp add: upload_image_put_failed emit_def)
qed

theorem upload_image_calls_zero_width:
  "width zero_width_request = 0
   \<and> trace (snd (upload_image demo_config zero_width_request fresh_world)) =
       [S3Upload ''uploads'' ''20240101120000.png'',
        Print ''Image uploaded successfully.'',
        Sleep 5,
        HttpPost ''https://api.example.com/resize''
          (JObj [(''source_key'', JStr ''20240101120000.png''),
                 (''width'', JInt 0),
                 (''height'', JInt 100),
                 (''source_bucket'', JStr ''uploads''),
                 (''target_bucket'', JStr ''resized'')])]"
  using upload_image_calls [of demo_config zero_width_request fresh_world]
  by (simp add: source_key_cat demo_config_def zero_width_request_def cat_request_def
        fresh_world_def)

section \<open>Failures of the store during a check\<close>

text \<open>
  Claim C5, as written: a failure of the head on the target key that is not a missing
  object reaches the caller as an error of its own, and \<open>exists: false\<close> is answered for
  a missing object only. A refused head (code 403) is answered with \<open>exists: false\<close>,
  as a missing object is.
\<close>

theorem refused_head_reported_as_missing:
  "head_object denied_world (TARGET_BUCKET demo_config) ''resized-20240101120000.png''
     = Inl (ClientError ''403'' ''Forbidden'')
   \<and> check_resized_image demo_config ''resized-20240101120000.png'' denied_world
     = Inr (Response (JObj [(''exists'', JBool False)]) 200)"
  by (simp add: check_resized_image_def head_object_def not_exists_def
        denied_world_def fresh_world_def demo_config_def)

text \<open>
  Claim C5, amended: whenever the head on the target key raises a \<open>ClientError\<close>, whatever
  its error code (a missing object, a refused request or another answer of the store),
  \<open>check_resized_image\<close> answers \<open>exists: false\<close> with status 200 and reports no error.
\<close>

theorem check_client_error_on_target:
  assumes "head_object w (TARGET_BUCKET cfg) resized_key = Inl (ClientError code text)"
  shows "check_resized_image cfg resized_key w
           = Inr (Response (JObj [(''exists'', JBool False)]) 200)"
  using assms by (simp add: check_resized_image_def not_exists_def)

theorem check_client_error_on_target_refused:
  "check_resized_image demo_config ''resized-20240101120000.png'' denied_world
     = Inr (Response (JObj [(''exists'', JBool False)]) 200)"
proof -
  have "head_object denied_world (TARGET_BUCKET demo_config) ''resized-20240101120000.png''
          = Inl (ClientError ''403'' ''Forbidden'')"
    by (simp add: head_object_def denied_world_def fresh_world_def demo_config_def)
  then show ?thesis by (rule check_client_error_on_target)
qed

section \<open>An endpoint that cannot be reached\<close>

text \<open>
  Claim C6: when the trigger call does not reach the endpoint, the caller gets an error
  result of the trigger, not an unhandled fault. The call at line 137 stands outside the
  \<open>try\<close> block of lines 129 to 134, which turns the exceptions of the upload into an
  answer: the exception of \<open>requests.post\<close> leaves \<open>upload_image\<close>.
\<close>

theorem unreachable_endpoint_raises:
  "fst (upload_image demo_config cat_request unreachable_world)
     = Inl (OtherError ''ConnectionError'' ''Connection refused'')"
  by (simp add: upload_image_after_put unreachable_world_def fresh_world_def)

section \<open>Checking a finished job\<close>

text \<open>
  Claim C7: once the target object exists, and the source object is still staged, the
  check answers \<open>exists: true\<close> with both sizes. For the upload of \<open>photo.resized-png\<close>
  both objects are in the store and both heads succeed, but the check looks for the
  source under the key that line 163 computes, finds nothing there and answers
  \<open>exists: false\<close>.
\<close>

theorem check_misses_finished_job:
  "head_object finished_odd_world (SOURCE_BUCKET demo_config) ''20240101120000.resized-png''
     = Inr 1024
   \<and> head_object finished_odd_world (TARGET_BUCKET demo_config)
       (derive_target_key ''20240101120000.resized-png'') = Inr 256
   \<and> check_resized_image demo_config (derive_target_key ''20240101120000.resized-png'')
       finished_odd_world
     = Inr (Response (JObj [(''exists'', JBool False)]) 200)"
  by (simp add: check_resized_image_def head_object_def not_exists_def derive_target_key_def
        derive_source_key_def finished_odd_world_def fresh_world_def demo_config_def)

section \<open>Checking a pending job\<close>



section \<open>A rejected trigger call\<close>

text \<open>
  Claim C9: when the endpoint answers the trigger call with a status other than 200,
  \<open>upload_image\<close> answers with the failure of the resize (status 500), and the object
  staged at the source key is still in the source bucket.
\<close>

theorem rejected_trigger_keeps_source:
  assumes "put_fault w (SOURCE_BUCKET cfg, make_source_key (now w) (filename req)) = None"
    and "post_result w (API_GATEWAY_URL cfg)
           (trigger_body cfg (make_source_key (now w) (filename req)) req) = Inr status_code"
    and "status_code \<noteq> 200"
  shows "fst (upload_image cfg req w)
           = Inr (Response (JObj [(''message'', JStr ''Image resizing failed.'')]) 500)
         \<and> objects (snd (upload_image cfg req w))
             (SOURCE_BUCKET cfg, make_source_key (now w) (filename req)) = Some (file_data req)"
  using assms by (simp add: upload_image_after_put upload_image_put_done staged_def)

theorem rejected_trigger_keeps_source_500:
  "fst (upload_image demo_config cat_request rejecting_world)
     = Inr (Response (JObj [(''message'', JStr ''Image resizing failed.'')]) 500)
   \<and> objects (snd (upload_image demo_config cat_request rejecting_world))
       (''uploads'', ''20240101120000.png'') = Some (replicate 1024 0)"
proof -
  have put: "put_fault rejecting_world
      (SOURCE_BUCKET demo_config, make_source_key (now rejecting_world) (filename cat_request)) = None"
    by (simp add: rejecting_world_def fresh_world_def)
  have post: "post_result rejecting_world (API_GATEWAY_URL demo_config)
      (trigger_body demo_config (make_source_key (now rejecting_world) (filename cat_request))
         cat_request) = Inr 500"
    by (simp add: rejecting_world_def fresh_world_def)
  have "(500::int) \<noteq> 200" by simp
  from rejected_trigger_keeps_source [OF put post this] show ?thesis
    by (simp add: source_key_cat rejecting_world_def fresh_world_def demo_config_def
          cat_request_def)
qed

section \<open>A finished job whose source cannot be read\<close>

text \<open>
  Claim C10: when the head on the target key succeeds and the head on the source key
  raises a \<open>ClientError\<close> (the source object is missing or refused), the check answers
  \<open>exists: false\<close> and no sizes, although the target object exists.
\<close>

theorem check_source_unreadable:
  assumes "head_object w (TARGET_BUCKET cfg) resized_key = Inr resized_size"
    and "head_object w (SOURCE_BUCKET cfg) (derive_source_key resized_key)
           = Inl (ClientError code text)"
  shows "check_resized_image cfg resized_key w
           = Inr (Response (JObj [(''exists'', JBool False)]) 200)"
  using assms by (simp add: check_resized_image_def not_exists_def)

theorem check_source_unreadable_target_only:
  "objects target_only_world (''resized'', ''resized-20240101120000.png'') = Some (replicate 256 0)
   \<and> check_resized_image demo_config ''resized-20240101120000.png'' target_only_world
     = Inr (Response (JObj [(''exists'', JBool False)]) 200)"
proof -
  have target: "head_object target_only_world (TARGET_BUCKET demo_config)
      ''resized-20240101120000.png'' = Inr 256"
    by (simp add: head_object_def target_only_world_def fresh_world_def demo_config_def)
  have source: "head_object target_only_world (SOURCE_BUCKET demo_config)
      (derive_source_key ''resized-20240101120000.png'') = Inl (ClientError ''404'' ''Not Found'')"
    by (simp add: head_object_def derive_source_key_def target_only_world_def fresh_world_def
          demo_config_def)
  from check_source_unreadable [OF target source] show ?thesis
    by (simp add: target_only_world_def fresh_world_def)
qed

end
